theory Spec2Isabelle
  imports Main "HOL-Library.Word"
begin

section \<open>The RRD column of Livestatus (RRDColumn.h)\<close>

text \<open>
  \<^verbatim>\<open>RRDColumn<T>\<close> is a list column whose content comes from a round-robin database.
  It first resolves the row to a (host name, service description) pair, asks
  \<^verbatim>\<open>detail::RRDDataMaker::make\<close> for a window of samples and then either hands the
  window element by element to a \<^verbatim>\<open>ListRenderer\<close> (\<^verbatim>\<open>output\<close>) or turns it into a
  vector of strings (\<^verbatim>\<open>getValue\<close>).
\<close>

subsection \<open>Time points, durations and their textual form\<close>

text \<open>
  \<^verbatim>\<open>std::chrono::system_clock::time_point\<close> counts nanosecond ticks since the epoch in a
  signed 64-bit integer (libstdc++, the library Livestatus is built against),
  \<^verbatim>\<open>std::chrono::seconds\<close> counts seconds in a signed 64-bit integer, and
  \<^verbatim>\<open>time_t\<close> and \<^verbatim>\<open>unsigned long\<close> are 64 bits wide. All are 64-bit words here, read
  with \<open>sint\<close> where the C++ type is signed. C++ leaves signed overflow undefined; the
  model takes the two's complement wrap-around of the machine.
\<close>

type_synonym time_point = "64 word"
type_synonym seconds = "64 word"
type_synonym time_t = "64 word"

definition epoch :: time_point where
  \<comment> \<open>a value-initialised \<^verbatim>\<open>time_point{}\<close>\<close>
  "epoch = 0"

definition ticks_per_second :: "64 word" where
  "ticks_per_second = 1000000000"

definition plus_seconds :: "time_point \<Rightarrow> seconds \<Rightarrow> time_point" where
  \<comment> \<open>\<^verbatim>\<open>tp + d\<close>: the seconds are converted to ticks, then added\<close>
  "plus_seconds tp d = tp + d * ticks_per_second"

definition trunc_div :: "int \<Rightarrow> int \<Rightarrow> int" where
  \<comment> \<open>C++ integer division: the quotient is truncated towards zero\<close>
  "trunc_div a b = (if 0 \<le> a then a div b else - ((- a) div b))"

definition to_time_t :: "time_point \<Rightarrow> time_t" where
  \<comment> \<open>\<^verbatim>\<open>system_clock::to_time_t\<close>: \<^verbatim>\<open>duration_cast<seconds>\<close> of the ticks since the epoch\<close>
  "to_time_t tp = word_of_int (trunc_div (sint tp) (sint ticks_per_second))"

definition digit_char :: "nat \<Rightarrow> char" where
  "digit_char d = ''0123456789'' ! d"

fun decimal :: "nat \<Rightarrow> string" where
  "decimal n = (if n < 10 then [digit_char n] else decimal (n div 10) @ [digit_char (n mod 10)])"

declare decimal.simps [simp del]

definition to_string_long :: "64 word \<Rightarrow> string" where
  \<comment> \<open>\<^verbatim>\<open>std::to_string(long)\<close>\<close>
  "to_string_long x =
     (let i = sint x in if i < 0 then CHR ''-'' # decimal (nat (- i)) else decimal (nat i))"

definition to_string_ulong :: "64 word \<Rightarrow> string" where
  \<comment> \<open>\<^verbatim>\<open>std::to_string(unsigned long)\<close>\<close>
  "to_string_ulong x = decimal (unat x)"

subsection \<open>Doubles and \<^verbatim>\<open>std::to_string(double)\<close>\<close>

text \<open>
  A \<^verbatim>\<open>double\<close> is a sign with either a finite magnitude \<open>m * 2 ^ e\<close> (significand
  and binary exponent), an infinity or a NaN. \<^verbatim>\<open>std::to_string(double)\<close> is specified as
  \<^verbatim>\<open>sprintf\<close> with the format \<^verbatim>\<open>%f\<close>. For a finite value that is a minus sign if
  the sign bit is set, the integer part, the decimal point and exactly six fractional
  digits, the exact value being rounded to six digits after the decimal point (to
  nearest, ties to even); an infinity is written \<^verbatim>\<open>inf\<close> and a NaN \<^verbatim>\<open>nan\<close>, after the same
  sign. \<^verbatim>\<open>sprintf\<close> takes the decimal point from the \<^verbatim>\<open>LC_NUMERIC\<close> category of the
  locale the process is in at the time of the call (\<^verbatim>\<open>localeconv()->decimal_point\<close>); the
  format \<^verbatim>\<open>%f\<close> asks for no grouping of digits. The locale is global state of the process,
  so it is an argument of everything that calls \<^verbatim>\<open>std::to_string\<close> on a double.
\<close>

record lconv =
  decimal_point :: string

datatype double = Finite bool nat int | Infinity bool | NaN bool

definition round_half_even :: "nat \<Rightarrow> nat \<Rightarrow> nat" where
  "round_half_even n d =
     (let q = n div d; r = n mod d
      in if d < 2 * r \<or> (2 * r = d \<and> q mod 2 = 1) then q + 1 else q)"

definition micro_units :: "nat \<Rightarrow> int \<Rightarrow> nat" where
  \<comment> \<open>\<open>m * 2 ^ e\<close> in units of \<open>10 ^ -6\<close>, rounded\<close>
  "micro_units m e =
     (if 0 \<le> e then m * 2 ^ nat e * 1000000
      else round_half_even (m * 1000000) (2 ^ nat (- e)))"

definition six_digits :: "nat \<Rightarrow> string" where
  "six_digits n = replicate (6 - length (decimal n)) (CHR ''0'') @ decimal n"

definition sign_prefix :: "bool \<Rightarrow> string" where
  "sign_prefix s = (if s then ''-'' else [])"

fun to_string_double :: "lconv \<Rightarrow> double \<Rightarrow> string" where
  "to_string_double lc (Finite s m e) =
     (let q = micro_units m e
      in sign_prefix s @ decimal (q div 1000000) @ decimal_point lc
           @ six_digits (q mod 1000000))"
| "to_string_double lc (Infinity s) = sign_prefix s @ ''inf''"
| "to_string_double lc (NaN s) = sign_prefix s @ ''nan''"

subsection \<open>The data maker\<close>

text \<open>\<^verbatim>\<open>detail::RRDDataMaker::Data\<close>; its default member initialisers give \<open>Data_empty\<close>.\<close>

record Data =
  Data_start :: time_point
  Data_end :: time_point
  Data_step :: "64 word"
  Data_values :: "double list"

definition Data_empty :: Data where
  \<comment> \<open>\<^verbatim>\<open>detail::RRDDataMaker::Data{}\<close>\<close>
  "Data_empty = \<lparr>Data_start = epoch, Data_end = epoch, Data_step = 0, Data_values = []\<rparr>"

record ('mc, 'args) RRDDataMaker =
  mc :: 'mc
  args :: 'args

text \<open>
  What the time-series store behind a monitoring core answers to a request for a metric
  configuration and a subject: a window, or a failure.
\<close>

datatype store_error = NoSuchMetric | TransientIOFailure

type_synonym ('mc, 'args) store = "'mc \<Rightarrow> 'args \<Rightarrow> string \<times> string \<Rightarrow> store_error + Data"

definition RRDDataMaker_make ::
  "('mc, 'args) store \<Rightarrow> ('mc, 'args) RRDDataMaker \<Rightarrow> string \<times> string \<Rightarrow> Data" where
  \<comment> \<open>Modelled from the spec: the body of \<^verbatim>\<open>detail::RRDDataMaker::make\<close> is not part of
      RRDColumn.h, which only declares it. The adapter's contract: a synchronous fetch for
      the subject and the column's metric configuration; a subject without a metrics source
      and a failure to reach the store both give the canonical empty window.\<close>
  "RRDDataMaker_make st dm host_name_service_description =
     (case st (mc dm) (args dm) host_name_service_description of
        Inl err \<Rightarrow> Data_empty
      | Inr data \<Rightarrow> data)"

subsection \<open>The column\<close>

text \<open>
  An \<^verbatim>\<open>RRDColumn<T>\<close> holds the name and description of its base class and the
  constant member \<^verbatim>\<open>data_maker_\<close>. The member function
  \<^verbatim>\<open>getHostNameServiceDesc\<close> is declared in the class and defined once per row type
  \<^verbatim>\<open>T\<close> outside RRDColumn.h, so the column carries it as a component: it maps a row to
  the (host name, service description) pair, or to nothing.
\<close>

record ('row, 'mc, 'args) RRDColumn =
  col_name :: string
  col_description :: string
  data_maker :: "('mc, 'args) RRDDataMaker"
  getHostNameServiceDesc :: "'row \<Rightarrow> (string \<times> string) option"

definition getData ::
  "('row, 'mc, 'args) RRDColumn \<Rightarrow> ('mc, 'args) store \<Rightarrow> 'row \<Rightarrow> Data" where
  "getData c st row =
     (let host_name_service_description = getHostNameServiceDesc c row
      in case host_name_service_description of
           Some p \<Rightarrow> RRDDataMaker_make st (data_maker c) p
         | None \<Rightarrow> Data_empty)"

subsection \<open>Structured rendering: \<^verbatim>\<open>output\<close>\<close>

text \<open>
  The member function \<^verbatim>\<open>RRDColumn<T>::output\<close> is \<open>RRDColumn_output\<close> here.

  \<^verbatim>\<open>ListRenderer::output\<close> is overloaded; the column calls it with a time point, an
  \<^verbatim>\<open>unsigned long\<close> and a \<^verbatim>\<open>double\<close>. A list renderer is the sequence of the elements
  handed to it so far; a row renderer is the sequence of the lists rendered into the row.
\<close>

datatype rendered = TimePoint time_point | UnsignedLong "64 word" | Double double

type_synonym ListRenderer = "rendered list"
type_synonym RowRenderer = "rendered list list"

definition ListRenderer_begin :: ListRenderer where
  \<comment> \<open>Modelled from the spec: Renderer.h is not part of the source; \<^verbatim>\<open>ListRenderer l(r)\<close>
      opens a nested list in the row, empty at first.\<close>
  "ListRenderer_begin = []"

definition ListRenderer_output :: "ListRenderer \<Rightarrow> rendered \<Rightarrow> ListRenderer" where
  \<comment> \<open>Modelled from the spec: Renderer.h is not part of the source; \<^verbatim>\<open>l.output(x)\<close> emits
      \<open>x\<close> as the next element of the nested list.\<close>
  "ListRenderer_output l x = l @ [x]"

definition ListRenderer_end :: "RowRenderer \<Rightarrow> ListRenderer \<Rightarrow> RowRenderer" where
  \<comment> \<open>Modelled from the spec: Renderer.h is not part of the source; at the end of its scope
      the list renderer closes the nested list, which the structured encoding keeps as one
      list inside the row.\<close>
  "ListRenderer_end r l = r @ [l]"

definition RRDColumn_output ::
  "('row, 'mc, 'args) RRDColumn \<Rightarrow> ('mc, 'args) store \<Rightarrow> 'row \<Rightarrow> RowRenderer \<Rightarrow>
     'contact \<Rightarrow> seconds \<Rightarrow> RowRenderer" where
  "RRDColumn_output c st row r auth_user timezone_offset =
     (let data = getData c st row;
          l = ListRenderer_begin;
          l = ListRenderer_output l (TimePoint (Data_start data));
          l = ListRenderer_output l (TimePoint (Data_end data));
          l = ListRenderer_output l (UnsignedLong (Data_step data));
          l = foldl (\<lambda>l v. ListRenderer_output l (Double v)) l (Data_values data)
      in ListRenderer_end r l)"

subsection \<open>Flat rendering: \<^verbatim>\<open>getValue\<close>\<close>

text \<open>
  The first argument is the locale of the process at the time of the call, which
  \<^verbatim>\<open>std::to_string\<close> reads for the samples.
\<close>

definition push_back :: "'a list \<Rightarrow> 'a \<Rightarrow> 'a list" where
  "push_back xs x = xs @ [x]"

definition getValue ::
  "lconv \<Rightarrow> ('row, 'mc, 'args) RRDColumn \<Rightarrow> ('mc, 'args) store \<Rightarrow> 'row \<Rightarrow> 'contact \<Rightarrow>
     seconds \<Rightarrow> string list" where
  "getValue lc c st row auth_user timezone_offset =
     (let data = getData c st row;
          strings = [];
          strings = push_back strings
            (to_string_long (to_time_t (plus_seconds (Data_start data) timezone_offset)));
          strings = push_back strings
            (to_string_long (to_time_t (plus_seconds (Data_end data) timezone_offset)));
          strings = push_back strings (to_string_ulong (Data_step data));
          strings = foldl (\<lambda>out v. push_back out (to_string_double lc v)) strings
                      (Data_values data)
      in strings)"

subsection \<open>The flatten operation of the specification\<close>

text \<open>
  Following the specification's words, not the source: flattening converts each element
  of a structured output to its canonical textual form and keeps the order. A timestamp
  becomes integer epoch seconds after the timezone offset has been applied, the step an
  integer, a sample decimal text (in the locale of the process, like the flat rendering).
\<close>

fun flatten :: "lconv \<Rightarrow> seconds \<Rightarrow> rendered \<Rightarrow> string" where
  "flatten lc tz (TimePoint tp) = to_string_long (to_time_t (plus_seconds tp tz))"
| "flatten lc tz (UnsignedLong n) = to_string_ulong n"
| "flatten lc tz (Double d) = to_string_double lc d"

subsection \<open>A concrete column and store\<close>

text \<open>
  A column over rows that either carry their subject or carry none, and a store that
  knows the CPU load of \<open>host1\<close> (the window of two samples \<open>0.5\<close> and \<open>0.7\<close> at step
  60, starting at 1600000000 seconds after the epoch), has a window without samples for
  its memory and a window of a NaN and a negative infinity for its disk, fails on
  \<open>host2\<close> and has nothing else. Two locales: the \<^verbatim>\<open>C\<close> locale, in which a process starts,
  and one whose decimal point is a comma.
\<close>

definition C_locale :: lconv where
  "C_locale = \<lparr>decimal_point = ''.''\<rparr>"

definition comma_locale :: lconv where
  "comma_locale = \<lparr>decimal_point = '',''\<rparr>"

definition double_0_5 :: double where
  "double_0_5 = Finite False 1 (- 1)"

definition double_0_7 :: double where
  \<comment> \<open>the double nearest to 0.7, \<open>3152519739159347 / 2 ^ 52\<close>\<close>
  "double_0_7 = Finite False 3152519739159347 (- 52)"

definition window_60 :: "time_point \<Rightarrow> Data" where
  "window_60 t0 =
     \<lparr>Data_start = t0, Data_end = plus_seconds t0 120, Data_step = 60,
      Data_values = [double_0_5, double_0_7]\<rparr>"

definition window_no_samples :: Data where
  "window_no_samples =
     \<lparr>Data_start = 1600000000000000000, Data_end = 1600000300000000000, Data_step = 300,
      Data_values = []\<rparr>"

definition window_non_finite :: Data where
  "window_non_finite =
     \<lparr>Data_start = 1600000000000000000, Data_end = 1600000120000000000, Data_step = 60,
      Data_values = [NaN False, Infinity True]\<rparr>"

definition example_store :: "(unit, unit) store" where
  "example_store m a subject =
     (if subject = (''host1'', ''CPU load'') then Inr (window_60 1600000000000000000)
      else if subject = (''host1'', ''Memory'') then Inr window_no_samples
      else if subject = (''host1'', ''Disk IO'') then Inr window_non_finite
      else if fst subject = ''host2'' then Inl TransientIOFailure
      else Inl NoSuchMetric)"

definition example_column :: "((string \<times> string) option, unit, unit) RRDColumn" where
  "example_column =
     \<lparr>col_name = ''rrddata'', col_description = ''RRD metrics data'',
      data_maker = \<lparr>mc = (), args = ()\<rparr>,
      getHostNameServiceDesc = (\<lambda>row. row)\<rparr>"

section \<open>Evaluation lemmas\<close>

lemma decimal_numeral:
  "decimal (numeral k) =
     (if (numeral k :: nat) < 10 then [digit_char (numeral k)]
      else decimal (numeral k div 10) @ [digit_char (numeral k mod 10)])"
  by (rule decimal.simps)

lemma decimal_0: "decimal 0 = ''0''"
  by (subst decimal.simps) (simp add: digit_char_def)

lemma decimal_Suc_0: "decimal (Suc 0) = ''1''"
  by (subst decimal.simps) (simp add: digit_char_def)

lemmas decimal_eval = decimal_numeral decimal_0 decimal_Suc_0 digit_char_def

lemma to_string_double_0_5:
  "to_string_double lc double_0_5 = ''0'' @ decimal_point lc @ ''500000''"
  by (simp add: double_0_5_def micro_units_def round_half_even_def six_digits_def
      sign_prefix_def decimal_eval)

lemma to_string_double_0_7:
  "to_string_double lc double_0_7 = ''0'' @ decimal_point lc @ ''700000''"
  by (simp add: double_0_7_def micro_units_def round_half_even_def six_digits_def
      sign_prefix_def decimal_eval)

lemma to_string_ulong_60: "to_string_ulong 60 = ''60''"
  by (simp add: to_string_ulong_def decimal_eval)

lemma to_string_ulong_0: "to_string_ulong 0 = ''0''"
  by (simp add: to_string_ulong_def decimal_eval)

section \<open>What the two renderings are\<close>

lemma foldl_ListRenderer_output:
  "foldl (\<lambda>l v. ListRenderer_output l (f v)) l vs = l @ map f vs"
  by (induction vs arbitrary: l) (simp_all add: ListRenderer_output_def)

lemma foldl_push_back:
  "foldl (\<lambda>out v. push_back out (f v)) out vs = out @ map f vs"
  by (induction vs arbitrary: out) (simp_all add: push_back_def)

lemma output_eq:
  "RRDColumn_output c st row r auth_user timezone_offset =
     r @ [[TimePoint (Data_start (getData c st row)), TimePoint (Data_end (getData c st row)),
           UnsignedLong (Data_step (getData c st row))]
          @ map Double (Data_values (getData c st row))]"
  unfolding RRDColumn_output_def Let_def foldl_ListRenderer_output
  by (simp add: ListRenderer_begin_def ListRenderer_output_def ListRenderer_end_def)

lemma getValue_eq:
  "getValue lc c st row auth_user timezone_offset =
     [to_string_long (to_time_t (plus_seconds (Data_start (getData c st row)) timezone_offset)),
      to_string_long (to_time_t (plus_seconds (Data_end (getData c st row)) timezone_offset)),
      to_string_ulong (Data_step (getData c st row))]
     @ map (to_string_double lc) (Data_values (getData c st row))"
  unfolding getValue_def Let_def foldl_push_back
  by (simp add: push_back_def)

lemma getData_unresolved:
  "getHostNameServiceDesc c row = None \<Longrightarrow> getData c st row = Data_empty"
  by (simp add: getData_def)

lemma getData_resolved:
  "getHostNameServiceDesc c row = Some p \<Longrightarrow> getData c st row = RRDDataMaker_make st (data_maker c) p"
  by (simp add: getData_def)

lemma output_appends:
  "RRDColumn_output c st row r auth_user timezone_offset = r @ RRDColumn_output c st row [] auth_user timezone_offset"
  by (simp add: output_eq)

lemma make_failure:
  "st (mc dm) (args dm) subject = Inl err \<Longrightarrow> RRDDataMaker_make st dm subject = Data_empty"
  by (simp add: RRDDataMaker_make_def)

subsection \<open>Time arithmetic at the values the examples use\<close>

lemma plus_seconds_0: "plus_seconds tp 0 = tp"
  by (simp add: plus_seconds_def)

lemma to_time_t_0: "to_time_t 0 = 0"
  by (simp add: to_time_t_def trunc_div_def)

lemma to_string_long_0: "to_string_long 0 = ''0''"
  by (simp add: to_string_long_def decimal_eval)

lemma to_string_ulong_300: "to_string_ulong 300 = ''300''"
  by (simp add: to_string_ulong_def decimal_eval)

lemma epoch_seconds_3600: "to_string_long (to_time_t (plus_seconds epoch 3600)) = ''3600''"
  by (simp add: epoch_def plus_seconds_def ticks_per_second_def to_time_t_def trunc_div_def
      to_string_long_def decimal_eval)

lemma epoch_seconds_t0: "to_string_long (to_time_t 1600000000000000000) = ''1600000000''"
  by (simp add: ticks_per_second_def to_time_t_def trunc_div_def to_string_long_def decimal_eval)

lemma epoch_seconds_t0_120: "to_string_long (to_time_t 1600000120000000000) = ''1600000120''"
  by (simp add: ticks_per_second_def to_time_t_def trunc_div_def to_string_long_def decimal_eval)

lemma t0_plus_120: "plus_seconds 1600000000000000000 120 = 1600000120000000000"
  by (simp add: plus_seconds_def ticks_per_second_def)

lemma epoch_seconds_memory_start:
  "to_string_long (to_time_t (plus_seconds 1600000000000000000 3600)) = ''1600003600''"
  by (simp add: plus_seconds_def ticks_per_second_def to_time_t_def trunc_div_def
      to_string_long_def decimal_eval)

lemma epoch_seconds_memory_end:
  "to_string_long (to_time_t (plus_seconds 1600000300000000000 3600)) = ''1600003900''"
  by (simp add: plus_seconds_def ticks_per_second_def to_time_t_def trunc_div_def
      to_string_long_def decimal_eval)

subsection \<open>The example column and store\<close>

lemma example_column_resolver [simp]: "getHostNameServiceDesc example_column row = row"
  by (simp add: example_column_def)

lemma example_cpu_load:
  "getData example_column example_store (Some (''host1'', ''CPU load'')) =
     window_60 1600000000000000000"
  by (simp add: getData_def RRDDataMaker_make_def example_store_def)

lemma example_memory:
  "getData example_column example_store (Some (''host1'', ''Memory'')) = window_no_samples"
  by (simp add: getData_def RRDDataMaker_make_def example_store_def)

lemma example_store_host2:
  "example_store (mc (data_maker example_column)) (args (data_maker example_column))
     (''host2'', ''PING'') = Inl TransientIOFailure"
  by (simp add: example_store_def)

subsection \<open>The shape of decimal text\<close>

lemma digit_char_is_digit: "d < 10 \<Longrightarrow> digit_char d \<in> set ''0123456789''"
  unfolding digit_char_def by (rule nth_mem) simp

lemma decimal_digits: "set (decimal n) \<subseteq> set ''0123456789''"
proof (induction n rule: decimal.induct)
  case (1 n)
  show ?case
  proof (cases "n < 10")
    case True
    then show ?thesis
      using digit_char_is_digit [of n] by (subst decimal.simps) simp
  next
    case False
    have "n mod 10 < 10" by simp
    then have "digit_char (n mod 10) \<in> set ''0123456789''"
      by (rule digit_char_is_digit)
    with False "1.IH" show ?thesis
      by (subst decimal.simps) simp
  qed
qed

lemma decimal_length: "n < 10 ^ k \<Longrightarrow> 0 < k \<Longrightarrow> length (decimal n) \<le> k"
proof (induction n arbitrary: k rule: decimal.induct)
  case (1 n)
  show ?case
  proof (cases "n < 10")
    case True
    with "1.prems" show ?thesis
      by (subst decimal.simps) simp
  next
    case False
    from "1.prems" obtain j where k: "k = Suc j"
      by (cases k) auto
    with "1.prems" False have "0 < j"
      by (cases j) auto
    moreover from "1.prems" k have "n div 10 < 10 ^ j"
      by (simp add: less_mult_imp_div_less mult.commute)
    ultimately have "length (decimal (n div 10)) \<le> j"
      using "1.IH" False by blast
    with False k show ?thesis
      by (subst decimal.simps) simp
  qed
qed

lemma six_digits_length: "length (six_digits (q mod 1000000)) = 6"
proof -
  have "q mod 1000000 < 10 ^ 6" by simp
  then have "length (decimal (q mod 1000000)) \<le> 6"
    by (rule decimal_length) simp
  then show ?thesis
    by (simp add: six_digits_def)
qed

lemma six_digits_digits: "set (six_digits n) \<subseteq> set ''0123456789''"
  using decimal_digits [of n] by (auto simp: six_digits_def)

lemma decimal_nonempty: "decimal n \<noteq> []"
  by (subst decimal.simps) simp

lemma to_string_long_shape:
  "\<exists>ds. to_string_long x = (if sint x < 0 then ''-'' else []) @ ds \<and> ds \<noteq> []
     \<and> set ds \<subseteq> set ''0123456789''"
proof (cases "sint x < 0")
  case True
  then have "to_string_long x = ''-'' @ decimal (nat (- sint x))"
    by (simp add: to_string_long_def)
  with True show ?thesis
    using decimal_nonempty decimal_digits by auto
next
  case False
  then have "to_string_long x = [] @ decimal (nat (sint x))"
    by (simp add: to_string_long_def)
  with False show ?thesis
    using decimal_nonempty decimal_digits by auto
qed

lemma to_string_ulong_nonempty: "to_string_ulong y \<noteq> []"
  by (simp add: to_string_ulong_def decimal_nonempty)

lemma to_string_ulong_digits: "set (to_string_ulong y) \<subseteq> set ''0123456789''"
  unfolding to_string_ulong_def by (rule decimal_digits)

lemma to_string_double_finite_shape:
  "\<exists>ip fr. to_string_double lc (Finite s m e) = sign_prefix s @ ip @ decimal_point lc @ fr
     \<and> ip \<noteq> [] \<and> set ip \<subseteq> set ''0123456789''
     \<and> length fr = 6 \<and> set fr \<subseteq> set ''0123456789''"
proof -
  let ?q = "micro_units m e"
  have "to_string_double lc (Finite s m e) =
      sign_prefix s @ decimal (?q div 1000000) @ decimal_point lc @ six_digits (?q mod 1000000)"
    by (simp add: Let_def)
  moreover have "decimal (?q div 1000000) \<noteq> []"
    by (rule decimal_nonempty)
  moreover have "set (decimal (?q div 1000000)) \<subseteq> set ''0123456789''"
    by (rule decimal_digits)
  moreover have "length (six_digits (?q mod 1000000)) = 6"
    by (rule six_digits_length)
  moreover have "set (six_digits (?q mod 1000000)) \<subseteq> set ''0123456789''"
    by (rule six_digits_digits)
  ultimately show ?thesis
    by blast
qed

lemma to_string_double_infinity: "to_string_double lc (Infinity s) \<in> {''inf'', ''-inf''}"
  by (simp add: sign_prefix_def)

lemma to_string_double_nan: "to_string_double lc (NaN s) \<in> {''nan'', ''-nan''}"
  by (simp add: sign_prefix_def)

lemma sign_prefix_cases: "sign_prefix s \<in> {[], ''-''}"
  by (simp add: sign_prefix_def)

lemma to_string_double_shape:
  "(\<exists>sgn ip fr. to_string_double lc v = sgn @ ip @ decimal_point lc @ fr
      \<and> sgn \<in> {[], ''-''} \<and> ip \<noteq> [] \<and> set ip \<subseteq> set ''0123456789''
      \<and> length fr = 6 \<and> set fr \<subseteq> set ''0123456789'')
   \<or> to_string_double lc v \<in> {''inf'', ''-inf'', ''nan'', ''-nan''}"
proof (cases v)
  case (Finite s m e)
  obtain ip fr where "to_string_double lc (Finite s m e) =
        sign_prefix s @ ip @ decimal_point lc @ fr"
      and "ip \<noteq> []" and "set ip \<subseteq> set ''0123456789''"
      and "length fr = 6" and "set fr \<subseteq> set ''0123456789''"
    using to_string_double_finite_shape [of lc s m e] by blast
  with Finite sign_prefix_cases [of s] show ?thesis
    by blast
next
  case (Infinity s)
  with to_string_double_infinity [of lc s] show ?thesis
    by auto
next
  case (NaN s)
  with to_string_double_nan [of lc s] show ?thesis
    by auto
qed

lemma getValue_window_60:
  assumes "getData c st row = window_60 t0"
  shows "getValue lc c st row auth_user tz =
       [to_string_long (to_time_t (plus_seconds t0 tz)),
        to_string_long (to_time_t (plus_seconds (plus_seconds t0 120) tz)),
        ''60'', ''0'' @ decimal_point lc @ ''500000'', ''0'' @ decimal_point lc @ ''700000'']"
  using assms
  by (simp add: getValue_eq window_60_def to_string_ulong_60 to_string_double_0_5
      to_string_double_0_7)

lemma example_disk:
  "getData example_column example_store (Some (''host1'', ''Disk IO'')) = window_non_finite"
  by (simp add: getData_def RRDDataMaker_make_def example_store_def)

section \<open>The claims\<close>

text \<open>
  C1. For a row whose subject cannot be resolved (\<^verbatim>\<open>getHostNameServiceDesc\<close> returns no
  value) both renderings are those of the canonical empty window, whatever the viewer
  and the timezone offset: the structured output is the list of the time point of the
  epoch, the time point of the epoch and the step 0, with no sample, and the flat output
  is the same three elements in textual form. As in every flat output, the two timestamp
  strings are the epoch shifted by the offset and counted in seconds; at offset 0 the
  flat output reads 0, 0, 0.
\<close>

theorem C1_unresolved_subject_renders_empty_window:
  assumes "getHostNameServiceDesc c row = None"
  shows "RRDColumn_output c st row r auth_user timezone_offset =
           r @ [[TimePoint epoch, TimePoint epoch, UnsignedLong 0]]
       \<and> getValue lc c st row auth_user timezone_offset =
           map (flatten lc timezone_offset) [TimePoint epoch, TimePoint epoch, UnsignedLong 0]
       \<and> getValue lc c st row auth_user timezone_offset =
           [to_string_long (to_time_t (plus_seconds epoch timezone_offset)),
            to_string_long (to_time_t (plus_seconds epoch timezone_offset)), ''0'']
       \<and> getValue lc c st row auth_user 0 = [''0'', ''0'', ''0'']"
  using assms
  by (simp add: output_eq getValue_eq getData_unresolved Data_empty_def to_string_ulong_0
      plus_seconds_0 epoch_def to_time_t_0 to_string_long_0)

theorem C1_unresolved_subject_renders_empty_window_witness:
  "getHostNameServiceDesc example_column None = None
   \<and> RRDColumn_output example_column example_store None [] () 3600 =
       [[TimePoint epoch, TimePoint epoch, UnsignedLong 0]]
   \<and> getValue C_locale example_column example_store None () 3600 = [''3600'', ''3600'', ''0'']
   \<and> getValue C_locale example_column example_store None () 0 = [''0'', ''0'', ''0'']"
proof -
  have unresolved: "getHostNameServiceDesc example_column None = None"
    by simp
  show ?thesis
    using unresolved
      C1_unresolved_subject_renders_empty_window [OF unresolved, where st = example_store
        and r = "[]" and auth_user = "()" and timezone_offset = 3600 and lc = C_locale]
    by (simp add: epoch_seconds_3600 to_string_ulong_0)
qed

text \<open>
  C2. For every row, viewer and timezone offset the flat output (\<^verbatim>\<open>getValue\<close>) has
  exactly 3 + n strings, n being the number of samples of the fetched window: first
  the start, the end and the step, then the samples in the order of the window. For a
  window without samples both renderings consist of the three metadata fields only.
\<close>

theorem C2_flat_output_is_metadata_then_samples:
  "length (getValue lc c st row auth_user timezone_offset) =
     3 + length (Data_values (getData c st row))
   \<and> take 3 (getValue lc c st row auth_user timezone_offset) =
       [to_string_long (to_time_t (plus_seconds (Data_start (getData c st row)) timezone_offset)),
        to_string_long (to_time_t (plus_seconds (Data_end (getData c st row)) timezone_offset)),
        to_string_ulong (Data_step (getData c st row))]
   \<and> drop 3 (getValue lc c st row auth_user timezone_offset) =
       map (to_string_double lc) (Data_values (getData c st row))
   \<and> (Data_values (getData c st row) = [] \<longrightarrow>
         getValue lc c st row auth_user timezone_offset =
           [to_string_long (to_time_t (plus_seconds (Data_start (getData c st row)) timezone_offset)),
            to_string_long (to_time_t (plus_seconds (Data_end (getData c st row)) timezone_offset)),
            to_string_ulong (Data_step (getData c st row))]
       \<and> RRDColumn_output c st row r auth_user timezone_offset =
           r @ [[TimePoint (Data_start (getData c st row)), TimePoint (Data_end (getData c st row)),
                 UnsignedLong (Data_step (getData c st row))]])"
  by (simp add: getValue_eq output_eq)

theorem C2_flat_output_is_metadata_then_samples_witness:
  "Data_values (getData example_column example_store (Some (''host1'', ''Memory''))) = []
   \<and> getValue C_locale example_column example_store (Some (''host1'', ''Memory'')) () 3600 =
        [''1600003600'', ''1600003900'', ''300'']
   \<and> RRDColumn_output example_column example_store (Some (''host1'', ''Memory'')) [] () 3600 =
        [[TimePoint 1600000000000000000, TimePoint 1600000300000000000, UnsignedLong 300]]"
proof -
  have no_samples:
    "Data_values (getData example_column example_store (Some (''host1'', ''Memory''))) = []"
    by (simp add: example_memory window_no_samples_def)
  show ?thesis
    using no_samples
      C2_flat_output_is_metadata_then_samples
        [where lc = C_locale and c = example_column and st = example_store
          and row = "Some (''host1'', ''Memory'')" and auth_user = "()"
          and timezone_offset = 3600 and r = "[]"]
    by (simp add: example_memory window_no_samples_def to_string_ulong_300
        epoch_seconds_memory_start epoch_seconds_memory_end)
qed

text \<open>
  C3. For every row the structured rendering (\<^verbatim>\<open>output\<close>) adds one list to the row
  renderer whose elements are, in this order, the start time point, the end time point,
  the step and then every sample of the fetched window in sequence: the three metadata
  fields always come before the samples.
\<close>

theorem C3_structured_output_order:
  "RRDColumn_output c st row r auth_user timezone_offset =
     r @ [[TimePoint (Data_start (getData c st row)), TimePoint (Data_end (getData c st row)),
           UnsignedLong (Data_step (getData c st row))]
          @ map Double (Data_values (getData c st row))]"
  by (rule output_eq)


text \<open>
  C5. The timezone offset changes nothing but the two timestamp fields of the flat
  output: the step and the samples are the same strings under any two offsets, and
  with offset 0 the start and the end are the time points the store reported,
  unshifted, as epoch seconds. The structured output is not changed by the offset at
  all.
\<close>

theorem C5_timezone_offset_shifts_only_timestamps:
  "drop 2 (getValue lc c st row auth_user tz) = drop 2 (getValue lc c st row auth_user tz')
   \<and> drop 2 (getValue lc c st row auth_user tz) =
       to_string_ulong (Data_step (getData c st row))
         # map (to_string_double lc) (Data_values (getData c st row))
   \<and> take 2 (getValue lc c st row auth_user 0) =
       [to_string_long (to_time_t (Data_start (getData c st row))),
        to_string_long (to_time_t (Data_end (getData c st row)))]
   \<and> RRDColumn_output c st row r auth_user tz = RRDColumn_output c st row r auth_user tz'"
  by (simp add: getValue_eq output_eq plus_seconds_0)

text \<open>
  C6. The structured rendering does not depend on its timezone offset argument: for
  every row and viewer the outputs under any two offsets are the same, the time points
  being handed to the renderer as the store reported them.
\<close>

theorem C6_structured_output_ignores_timezone_offset:
  "RRDColumn_output c st row r auth_user tz = RRDColumn_output c st row r auth_user tz'"
  by (simp add: output_eq)

text \<open>
  C7, as stated: in flat mode the two timestamps are integer epoch seconds (after the
  offset has been added), the step is an integer and every sample is plain decimal
  text with no locale-specific formatting; for the window with step 60 from \<open>t0\<close> to
  \<open>t0 + 120\<close> and the samples 0.5 and 0.7 the flat output ends with the strings 0.5 and
  0.7. The column renders a sample with \<^verbatim>\<open>std::to_string\<close>. At the window starting
  1600000000 seconds after the epoch the flat output ends with 0.500000 and 0.700000
  in the \<^verbatim>\<open>C\<close> locale and with 0,500000 and 0,700000 in a locale whose decimal point is
  a comma; and the samples NaN and negative infinity are rendered as nan and -inf, which
  is no decimal text.
\<close>

theorem C7_samples_are_rendered_by_to_string_counterexample:
  "getData example_column example_store (Some (''host1'', ''CPU load'')) =
     \<lparr>Data_start = 1600000000000000000, Data_end = 1600000120000000000, Data_step = 60,
      Data_values = [double_0_5, double_0_7]\<rparr>
   \<and> getValue C_locale example_column example_store (Some (''host1'', ''CPU load'')) () 0 =
     [''1600000000'', ''1600000120'', ''60'', ''0.500000'', ''0.700000'']
   \<and> getValue C_locale example_column example_store (Some (''host1'', ''CPU load'')) () 0 \<noteq>
     [''1600000000'', ''1600000120'', ''60'', ''0.5'', ''0.7'']
   \<and> getValue comma_locale example_column example_store (Some (''host1'', ''CPU load'')) () 0 =
     [''1600000000'', ''1600000120'', ''60'', ''0,500000'', ''0,700000'']
   \<and> getValue C_locale example_column example_store (Some (''host1'', ''Disk IO'')) () 0 =
     [''1600000000'', ''1600000120'', ''60'', ''nan'', ''-inf'']"
proof -
  have c_locale:
    "getValue C_locale example_column example_store (Some (''host1'', ''CPU load'')) () 0 =
     [''1600000000'', ''1600000120'', ''60'', ''0.500000'', ''0.700000'']"
    using getValue_window_60 [OF example_cpu_load, of C_locale "()" 0]
    by (simp add: plus_seconds_0 t0_plus_120 epoch_seconds_t0 epoch_seconds_t0_120 C_locale_def)
  have comma:
    "getValue comma_locale example_column example_store (Some (''host1'', ''CPU load'')) () 0 =
     [''1600000000'', ''1600000120'', ''60'', ''0,500000'', ''0,700000'']"
    using getValue_window_60 [OF example_cpu_load, of comma_locale "()" 0]
    by (simp add: plus_seconds_0 t0_plus_120 epoch_seconds_t0 epoch_seconds_t0_120
        comma_locale_def)
  have non_finite:
    "getValue C_locale example_column example_store (Some (''host1'', ''Disk IO'')) () 0 =
     [''1600000000'', ''1600000120'', ''60'', ''nan'', ''-inf'']"
    by (simp add: getValue_eq example_disk window_non_finite_def plus_seconds_0
        epoch_seconds_t0 epoch_seconds_t0_120 to_string_ulong_60 sign_prefix_def)
  have window: "getData example_column example_store (Some (''host1'', ''CPU load'')) =
     \<lparr>Data_start = 1600000000000000000, Data_end = 1600000120000000000, Data_step = 60,
      Data_values = [double_0_5, double_0_7]\<rparr>"
    by (simp add: example_cpu_load window_60_def t0_plus_120)
  from c_locale
  have differs:
    "getValue C_locale example_column example_store (Some (''host1'', ''CPU load'')) () 0 \<noteq>
     [''1600000000'', ''1600000120'', ''60'', ''0.5'', ''0.7'']"
    by simp
  from window c_locale differs comma non_finite show ?thesis
    by (intro conjI)
qed

text \<open>
  C7, amended. In flat mode every value is rendered by \<^verbatim>\<open>std::to_string\<close>: the two
  timestamps as integer epoch seconds (after the offset has been added), the step as an
  integer, and each sample as follows. A finite sample is a minus sign if it is
  negative, the digits of the integer part, the decimal point of the locale the process
  is in, and exactly six decimal digits, with no grouping of digits; an infinite sample
  is inf or -inf and a NaN is nan or -nan. For the window with step 60 from \<open>t0\<close> to
  \<open>t0 + 120\<close> and the samples 0.5 and 0.7 the structured output is \<open>t0\<close>, \<open>t0 + 120\<close>, 60,
  0.5, 0.7 and the flat output is the epoch seconds of \<open>t0\<close> and of \<open>t0 + 120\<close>, then 60
  and the two samples as 0, the decimal point, 500000 and 0, the decimal point, 700000:
  0.500000 and 0.700000 in the \<^verbatim>\<open>C\<close> locale.
\<close>

theorem C7_flat_textual_forms:
  "getValue lc c st row auth_user tz =
     [to_string_long (to_time_t (plus_seconds (Data_start (getData c st row)) tz)),
      to_string_long (to_time_t (plus_seconds (Data_end (getData c st row)) tz)),
      to_string_ulong (Data_step (getData c st row))]
     @ map (to_string_double lc) (Data_values (getData c st row))
   \<and> (\<exists>ds. to_string_long x = (if sint x < 0 then ''-'' else []) @ ds \<and> ds \<noteq> []
         \<and> set ds \<subseteq> set ''0123456789'')
   \<and> to_string_ulong y \<noteq> []
   \<and> set (to_string_ulong y) \<subseteq> set ''0123456789''
   \<and> (\<exists>ip fr. to_string_double lc (Finite s m e) = sign_prefix s @ ip @ decimal_point lc @ fr
         \<and> ip \<noteq> [] \<and> set ip \<subseteq> set ''0123456789''
         \<and> length fr = 6 \<and> set fr \<subseteq> set ''0123456789'')
   \<and> to_string_double lc (Infinity s) \<in> {''inf'', ''-inf''}
   \<and> to_string_double lc (NaN s) \<in> {''nan'', ''-nan''}
   \<and> (\<forall>str \<in> set (drop 3 (getValue lc c st row auth_user tz)).
         (\<exists>sgn ip fr. str = sgn @ ip @ decimal_point lc @ fr
            \<and> sgn \<in> {[], ''-''} \<and> ip \<noteq> [] \<and> set ip \<subseteq> set ''0123456789''
            \<and> length fr = 6 \<and> set fr \<subseteq> set ''0123456789'')
         \<or> str \<in> {''inf'', ''-inf'', ''nan'', ''-nan''})
   \<and> (getData c st row = window_60 t0 \<longrightarrow>
        RRDColumn_output c st row r auth_user tz =
          r @ [[TimePoint t0, TimePoint (plus_seconds t0 120), UnsignedLong 60,
                Double double_0_5, Double double_0_7]]
      \<and> getValue lc c st row auth_user tz =
          [to_string_long (to_time_t (plus_seconds t0 tz)),
           to_string_long (to_time_t (plus_seconds (plus_seconds t0 120) tz)),
           ''60'', ''0'' @ decimal_point lc @ ''500000'', ''0'' @ decimal_point lc @ ''700000'']
      \<and> getValue C_locale c st row auth_user tz =
          [to_string_long (to_time_t (plus_seconds t0 tz)),
           to_string_long (to_time_t (plus_seconds (plus_seconds t0 120) tz)),
           ''60'', ''0.500000'', ''0.700000''])"
proof -
  have flat: "getValue lc c st row auth_user tz =
     [to_string_long (to_time_t (plus_seconds (Data_start (getData c st row)) tz)),
      to_string_long (to_time_t (plus_seconds (Data_end (getData c st row)) tz)),
      to_string_ulong (Data_step (getData c st row))]
     @ map (to_string_double lc) (Data_values (getData c st row))"
    by (rule getValue_eq)
  have samples: "\<forall>str \<in> set (drop 3 (getValue lc c st row auth_user tz)).
         (\<exists>sgn ip fr. str = sgn @ ip @ decimal_point lc @ fr
            \<and> sgn \<in> {[], ''-''} \<and> ip \<noteq> [] \<and> set ip \<subseteq> set ''0123456789''
            \<and> length fr = 6 \<and> set fr \<subseteq> set ''0123456789'')
         \<or> str \<in> {''inf'', ''-inf'', ''nan'', ''-nan''}"
  proof
    fix str
    assume "str \<in> set (drop 3 (getValue lc c st row auth_user tz))"
    then have "str \<in> to_string_double lc ` set (Data_values (getData c st row))"
      by (simp add: flat)
    then obtain v where "str = to_string_double lc v"
      by blast
    then show "(\<exists>sgn ip fr. str = sgn @ ip @ decimal_point lc @ fr
            \<and> sgn \<in> {[], ''-''} \<and> ip \<noteq> [] \<and> set ip \<subseteq> set ''0123456789''
            \<and> length fr = 6 \<and> set fr \<subseteq> set ''0123456789'')
         \<or> str \<in> {''inf'', ''-inf'', ''nan'', ''-nan''}"
      using to_string_double_shape [of lc v] by simp
  qed
  have scenario: "getData c st row = window_60 t0 \<longrightarrow>
        RRDColumn_output c st row r auth_user tz =
          r @ [[TimePoint t0, TimePoint (plus_seconds t0 120), UnsignedLong 60,
                Double double_0_5, Double double_0_7]]
      \<and> getValue lc c st row auth_user tz =
          [to_string_long (to_time_t (plus_seconds t0 tz)),
           to_string_long (to_time_t (plus_seconds (plus_seconds t0 120) tz)),
           ''60'', ''0'' @ decimal_point lc @ ''500000'', ''0'' @ decimal_point lc @ ''700000'']
      \<and> getValue C_locale c st row auth_user tz =
          [to_string_long (to_time_t (plus_seconds t0 tz)),
           to_string_long (to_time_t (plus_seconds (plus_seconds t0 120) tz)),
           ''60'', ''0.500000'', ''0.700000'']"
  proof
    assume window: "getData c st row = window_60 t0"
    have "RRDColumn_output c st row r auth_user tz =
          r @ [[TimePoint t0, TimePoint (plus_seconds t0 120), UnsignedLong 60,
                Double double_0_5, Double double_0_7]]"
      by (simp add: output_eq window window_60_def)
    moreover note getValue_window_60 [OF window, of lc auth_user tz]
    moreover have "getValue C_locale c st row auth_user tz =
          [to_string_long (to_time_t (plus_seconds t0 tz)),
           to_string_long (to_time_t (plus_seconds (plus_seconds t0 120) tz)),
           ''60'', ''0.500000'', ''0.700000'']"
      using getValue_window_60 [OF window, of C_locale auth_user tz]
      by (simp add: C_locale_def)
    ultimately show "RRDColumn_output c st row r auth_user tz =
          r @ [[TimePoint t0, TimePoint (plus_seconds t0 120), UnsignedLong 60,
                Double double_0_5, Double double_0_7]]
      \<and> getValue lc c st row auth_user tz =
          [to_string_long (to_time_t (plus_seconds t0 tz)),
           to_string_long (to_time_t (plus_seconds (plus_seconds t0 120) tz)),
           ''60'', ''0'' @ decimal_point lc @ ''500000'', ''0'' @ decimal_point lc @ ''700000'']
      \<and> getValue C_locale c st row auth_user tz =
          [to_string_long (to_time_t (plus_seconds t0 tz)),
           to_string_long (to_time_t (plus_seconds (plus_seconds t0 120) tz)),
           ''60'', ''0.500000'', ''0.700000'']"
      by (intro conjI)
  qed
  from flat to_string_long_shape [of x] to_string_ulong_nonempty [of y]
    to_string_ulong_digits [of y] to_string_double_finite_shape [of lc s m e]
    to_string_double_infinity [of lc s] to_string_double_nan [of lc s] samples scenario
  show ?thesis
    by (intro conjI)
qed

theorem C7_flat_textual_forms_witness:
  "getData example_column example_store (Some (''host1'', ''CPU load'')) =
     window_60 1600000000000000000
   \<and> RRDColumn_output example_column example_store (Some (''host1'', ''CPU load'')) [] () 0 =
        [[TimePoint 1600000000000000000, TimePoint 1600000120000000000, UnsignedLong 60,
          Double double_0_5, Double double_0_7]]
   \<and> getValue comma_locale example_column example_store (Some (''host1'', ''CPU load'')) () 0 =
        [''1600000000'', ''1600000120'', ''60'', ''0,500000'', ''0,700000'']
   \<and> getValue C_locale example_column example_store (Some (''host1'', ''CPU load'')) () 0 =
        [''1600000000'', ''1600000120'', ''60'', ''0.500000'', ''0.700000'']
   \<and> drop 3 (getValue comma_locale example_column example_store
        (Some (''host1'', ''CPU load'')) () 0) = [''0,500000'', ''0,700000'']"
proof -
  note claim =
    C7_flat_textual_forms [where lc = comma_locale and c = example_column
      and st = example_store and row = "Some (''host1'', ''CPU load'')" and auth_user = "()"
      and tz = 0 and x = 0 and y = 0 and s = False and m = 1 and e = "- 1"
      and ?t0.0 = 1600000000000000000 and r = "[]"]
  from claim example_cpu_load
  have "RRDColumn_output example_column example_store (Some (''host1'', ''CPU load'')) [] () 0 =
        [] @ [[TimePoint 1600000000000000000, TimePoint (plus_seconds 1600000000000000000 120),
          UnsignedLong 60, Double double_0_5, Double double_0_7]]"
    and "getValue comma_locale example_column example_store
          (Some (''host1'', ''CPU load'')) () 0 =
        [to_string_long (to_time_t (plus_seconds 1600000000000000000 0)),
         to_string_long (to_time_t (plus_seconds (plus_seconds 1600000000000000000 120) 0)),
         ''60'', ''0'' @ decimal_point comma_locale @ ''500000'',
         ''0'' @ decimal_point comma_locale @ ''700000'']"
    and "getValue C_locale example_column example_store (Some (''host1'', ''CPU load'')) () 0 =
        [to_string_long (to_time_t (plus_seconds 1600000000000000000 0)),
         to_string_long (to_time_t (plus_seconds (plus_seconds 1600000000000000000 120) 0)),
         ''60'', ''0.500000'', ''0.700000'']"
    by blast+
  then show ?thesis
    using example_cpu_load
    by (simp add: t0_plus_120 plus_seconds_0 epoch_seconds_t0 epoch_seconds_t0_120
        comma_locale_def)
qed

text \<open>
  C9. A transient I/O failure of the store during the fetch degrades to the canonical
  empty window: both renderings are those of a row whose subject is unresolved, the
  render call returns its output and no fault, whatever the row renderer held before
  the call is still there, and a later render call for another row or column appends
  its own output as usual.
\<close>

theorem C9_store_failure_renders_empty_window:
  assumes "getHostNameServiceDesc c row = Some subject"
      and "st (mc (data_maker c)) (args (data_maker c)) subject = Inl TransientIOFailure"
      and "getHostNameServiceDesc c' row' = None"
  shows "getData c st row = Data_empty
       \<and> RRDColumn_output c st row r auth_user tz = r @ [[TimePoint epoch, TimePoint epoch, UnsignedLong 0]]
       \<and> getValue lc c st row auth_user tz =
           [to_string_long (to_time_t (plus_seconds epoch tz)),
            to_string_long (to_time_t (plus_seconds epoch tz)), ''0'']
       \<and> RRDColumn_output c st row r auth_user tz = RRDColumn_output c' st' row' r auth_user tz
       \<and> getValue lc c st row auth_user tz = getValue lc c' st' row' auth_user tz
       \<and> RRDColumn_output other_column st other_row (RRDColumn_output c st row r auth_user tz) other_user other_tz =
           r @ [[TimePoint epoch, TimePoint epoch, UnsignedLong 0]]
             @ RRDColumn_output other_column st other_row [] other_user other_tz"
proof -
  have empty: "getData c st row = Data_empty"
    using assms(1,2) by (simp add: getData_resolved make_failure)
  have empty': "getData c' st' row' = Data_empty"
    using assms(3) by (rule getData_unresolved)
  have out: "RRDColumn_output c st row r auth_user tz =
      r @ [[TimePoint epoch, TimePoint epoch, UnsignedLong 0]]"
    by (simp add: output_eq empty Data_empty_def)
  have "RRDColumn_output other_column st other_row (RRDColumn_output c st row r auth_user tz) other_user other_tz =
      RRDColumn_output c st row r auth_user tz @ RRDColumn_output other_column st other_row [] other_user other_tz"
    by (rule output_appends)
  with out have later:
    "RRDColumn_output other_column st other_row (RRDColumn_output c st row r auth_user tz) other_user other_tz =
      r @ [[TimePoint epoch, TimePoint epoch, UnsignedLong 0]]
        @ RRDColumn_output other_column st other_row [] other_user other_tz"
    by simp
  have flat: "getValue lc c st row auth_user tz =
      [to_string_long (to_time_t (plus_seconds epoch tz)),
       to_string_long (to_time_t (plus_seconds epoch tz)), ''0'']"
    by (simp add: getValue_eq empty Data_empty_def to_string_ulong_0)
  have "RRDColumn_output c st row r auth_user tz = RRDColumn_output c' st' row' r auth_user tz"
    by (simp add: output_eq empty empty')
  moreover have "getValue lc c st row auth_user tz = getValue lc c' st' row' auth_user tz"
    by (simp add: getValue_eq empty empty')
  ultimately show ?thesis
    using empty out flat later by blast
qed

theorem C9_store_failure_renders_empty_window_witness:
  "getHostNameServiceDesc example_column (Some (''host2'', ''PING'')) = Some (''host2'', ''PING'')
   \<and> example_store (mc (data_maker example_column)) (args (data_maker example_column))
        (''host2'', ''PING'') = Inl TransientIOFailure
   \<and> getHostNameServiceDesc example_column None = None
   \<and> RRDColumn_output example_column example_store (Some (''host2'', ''PING'')) [] () 3600 =
        [[TimePoint epoch, TimePoint epoch, UnsignedLong 0]]
   \<and> getValue C_locale example_column example_store (Some (''host2'', ''PING'')) () 3600 =
        [''3600'', ''3600'', ''0'']
   \<and> getValue C_locale example_column example_store (Some (''host2'', ''PING'')) () 3600 =
        getValue C_locale example_column example_store None () 3600
   \<and> RRDColumn_output example_column example_store (Some (''host1'', ''Memory''))
        (RRDColumn_output example_column example_store (Some (''host2'', ''PING'')) [] () 3600) () 3600 =
        [[TimePoint epoch, TimePoint epoch, UnsignedLong 0],
         [TimePoint 1600000000000000000, TimePoint 1600000300000000000, UnsignedLong 300]]"
proof -
  have resolved:
    "getHostNameServiceDesc example_column (Some (''host2'', ''PING'')) = Some (''host2'', ''PING'')"
    by simp
  have unresolved: "getHostNameServiceDesc example_column None = None"
    by simp
  have memory: "RRDColumn_output example_column example_store (Some (''host1'', ''Memory'')) [] () 3600 =
      [[TimePoint 1600000000000000000, TimePoint 1600000300000000000, UnsignedLong 300]]"
    by (simp add: output_eq example_memory window_no_samples_def)
  note failure =
    C9_store_failure_renders_empty_window [where c = example_column and st = example_store
      and c' = example_column and row' = None and st' = example_store
      and r = "[]" and auth_user = "()" and tz = 3600 and lc = C_locale
      and other_column = example_column and other_row = "Some (''host1'', ''Memory'')"
      and other_user = "()" and other_tz = 3600, OF resolved example_store_host2 unresolved]
  from failure have "RRDColumn_output example_column example_store (Some (''host2'', ''PING'')) [] () 3600 =
      [] @ [[TimePoint epoch, TimePoint epoch, UnsignedLong 0]]"
    by blast
  then have structured:
    "RRDColumn_output example_column example_store (Some (''host2'', ''PING'')) [] () 3600 =
      [[TimePoint epoch, TimePoint epoch, UnsignedLong 0]]"
    by simp
  from failure have "getValue C_locale example_column example_store (Some (''host2'', ''PING'')) () 3600 =
      [to_string_long (to_time_t (plus_seconds epoch 3600)),
       to_string_long (to_time_t (plus_seconds epoch 3600)), ''0'']"
    by blast
  then have flat: "getValue C_locale example_column example_store (Some (''host2'', ''PING'')) () 3600 =
      [''3600'', ''3600'', ''0'']"
    by (simp add: epoch_seconds_3600)
  from failure have same:
    "getValue C_locale example_column example_store (Some (''host2'', ''PING'')) () 3600 =
      getValue C_locale example_column example_store None () 3600"
    by blast
  from failure have "RRDColumn_output example_column example_store (Some (''host1'', ''Memory''))
        (RRDColumn_output example_column example_store (Some (''host2'', ''PING'')) [] () 3600) () 3600 =
      [] @ [[TimePoint epoch, TimePoint epoch, UnsignedLong 0]]
        @ RRDColumn_output example_column example_store (Some (''host1'', ''Memory'')) [] () 3600"
    by blast
  then have later: "RRDColumn_output example_column example_store (Some (''host1'', ''Memory''))
        (RRDColumn_output example_column example_store (Some (''host2'', ''PING'')) [] () 3600) () 3600 =
      [[TimePoint epoch, TimePoint epoch, UnsignedLong 0],
       [TimePoint 1600000000000000000, TimePoint 1600000300000000000, UnsignedLong 300]]"
    by (simp only: memory append_Nil append_Cons)
  show ?thesis
    using resolved example_store_host2 unresolved structured flat same later by blast
qed

text \<open>
  C10. The column does not interpret the viewer: for every row and timezone offset the
  structured output and the flat output are the same for any two viewer identities.
\<close>

theorem C10_viewer_is_not_interpreted:
  "RRDColumn_output c st row r auth_user tz = RRDColumn_output c st row r auth_user' tz
   \<and> getValue lc c st row auth_user tz = getValue lc c st row auth_user' tz"
  by (simp add: output_eq getValue_eq)

end
